theory Spec2Isabelle
  imports Main
begin

section \<open>ABCBank: accounts, decorators, customers, the services facade, the loan gate\<close>

text \<open>
  A shallow embedding of the notebook \<^verbatim>\<open>ABCBank.ipynb\<close>. Objects are values of a
  datatype with one constructor for each concrete class, a method is a function on that
  datatype, the \<^verbatim>\<open>self\<close> of a class with fields is a record. Python's unbounded
  integers are \<^typ>\<open>int\<close>, its strings are \<^typ>\<open>string\<close>. The notebook builds
  every customer with an integer age, income and credit score, and passes the account kind
  and the upgrade level as strings; the model takes them at these types.
\<close>

subsection \<open>Strategy: the account classes\<close>

text \<open>
  The five concrete accounts and the five decorator classes. A decorator holds the account
  it wraps (its field \<^verbatim>\<open>account\<close>), which is the constructor's argument.
\<close>

datatype Account =
    CurrentAccount
  | HomeLoanAccount
  | CarLoanAccount
  | PersonalLoanAccount
  | SavingsAccount
  | AccountDecorator Account
  | BronzeAccountDecorator Account
  | SilverAccountDecorator Account
  | GoldAccountDecorator Account
  | DiscountedAccount Account

fun account_type :: "Account \<Rightarrow> string" where
  "account_type CurrentAccount = ''Current Account Created''"
| "account_type HomeLoanAccount = ''Home Loan Account Created''"
| "account_type CarLoanAccount = ''Car Loan Account Created''"
| "account_type PersonalLoanAccount = ''Personal Loan Account Created''"
| "account_type SavingsAccount = ''Savings Account Created''"
| "account_type (AccountDecorator account) = account_type account"
| "account_type (BronzeAccountDecorator account) = account_type account @ '' with Bronze features''"
| "account_type (SilverAccountDecorator account) = account_type account @ '' with Silver features''"
| "account_type (GoldAccountDecorator account) = account_type account @ '' with Gold features''"
| "account_type (DiscountedAccount account) = account_type account @ '' with discount''"

subsection \<open>Abstract factory\<close>

datatype AccountFactory =
    CurrentAccountFactory
  | HomeLoanAccountFactory
  | CarLoanAccountFactory
  | PersonalLoanAccountFactory
  | SavingsAccountFactory

text \<open>The method \<^verbatim>\<open>create_account\<close> of the factory classes.\<close>

fun factory_create_account :: "AccountFactory \<Rightarrow> Account" where
  "factory_create_account CurrentAccountFactory = CurrentAccount"
| "factory_create_account HomeLoanAccountFactory = HomeLoanAccount"
| "factory_create_account CarLoanAccountFactory = CarLoanAccount"
| "factory_create_account PersonalLoanAccountFactory = PersonalLoanAccount"
| "factory_create_account SavingsAccountFactory = SavingsAccount"

subsection \<open>Customer\<close>

record Customer =
  name :: string
  age :: int
  income :: int
  education :: string
  credit_score :: int

definition check_credit :: "Customer \<Rightarrow> bool" where
  "check_credit self = (credit_score self > 700)"

subsection \<open>Facade: BankingServices\<close>

record BankingServices =
  account_factories :: "string \<rightharpoonup> AccountFactory"

text \<open>The constructor \<^verbatim>\<open>BankingServices()\<close>: the dictionary of the five factories.\<close>

definition new_BankingServices :: BankingServices where
  "new_BankingServices =
     \<lparr>account_factories = map_of
        [(''Current'', CurrentAccountFactory),
         (''HomeLoan'', HomeLoanAccountFactory),
         (''CarLoan'', CarLoanAccountFactory),
         (''PersonalLoan'', PersonalLoanAccountFactory),
         (''Savings'', SavingsAccountFactory)]\<rparr>"

text \<open>
  \<^verbatim>\<open>create_account(self, type, customer)\<close>. The eligibility rules are tried in the
  order of the \<^verbatim>\<open>if\<close>/\<^verbatim>\<open>elif\<close> chain; \<^verbatim>\<open>dict.get\<close> gives \<^verbatim>\<open>None\<close> for a
  missing key, and a factory object is always truthy.
\<close>

definition create_account :: "BankingServices \<Rightarrow> string \<Rightarrow> Customer \<Rightarrow> string" where
  "create_account self type customer =
     (if type = ''HomeLoan'' \<and> age customer > 50 then
        ''Sorry, customers over 50 do not qualify for home loans.''
      else if type \<in> set [''CarLoan'', ''PersonalLoan''] \<and> income customer < 50000 then
        ''Sorry, you need a minimum income of 50,000 for car and personal loans.''
      else if type = ''Savings'' \<and> age customer < 18 then
        ''Sorry, you need to be at least 18 years old to open a savings account.''
      else
        (case account_factories self type of
           Some factory \<Rightarrow> account_type (factory_create_account factory)
         | None \<Rightarrow> ''Invalid account type''))"

definition upgrade_account :: "BankingServices \<Rightarrow> Account \<Rightarrow> string \<Rightarrow> string" where
  "upgrade_account self account level =
     (if level = ''Bronze'' then account_type (BronzeAccountDecorator account)
      else if level = ''Silver'' then account_type (SilverAccountDecorator account)
      else if level = ''Gold'' then account_type (GoldAccountDecorator account)
      else ''Invalid level'')"

definition apply_discount :: "BankingServices \<Rightarrow> Account \<Rightarrow> string" where
  "apply_discount self account = account_type (DiscountedAccount account)"

subsection \<open>Loan application\<close>

record LoanApplication =
  banking_services :: BankingServices

definition new_LoanApplication :: "BankingServices \<Rightarrow> LoanApplication" where
  "new_LoanApplication bs = \<lparr>banking_services = bs\<rparr>"

definition apply_for_loan :: "LoanApplication \<Rightarrow> string \<Rightarrow> Customer \<Rightarrow> string" where
  "apply_for_loan self type customer =
     (if check_credit customer then create_account (banking_services self) type customer
      else ''Sorry, your credit score is too low for a loan.'')"

subsection \<open>Rejections\<close>

text \<open>
  The results of \<^verbatim>\<open>create_account\<close> that are not the description of a created
  account: the string literals returned by its three eligibility branches and by the
  branch for a key that the dictionary of factories does not have.
\<close>

definition rejection_messages :: "string list" where
  "rejection_messages =
     [''Sorry, customers over 50 do not qualify for home loans.'',
      ''Sorry, you need a minimum income of 50,000 for car and personal loans.'',
      ''Sorry, you need to be at least 18 years old to open a savings account.'',
      ''Invalid account type'']"

definition rejected :: "string \<Rightarrow> bool" where
  "rejected result = (result \<in> set rejection_messages)"

subsection \<open>The customers of the notebook's test cell\<close>

definition ola :: Customer where
  "ola = \<lparr>name = ''Ola Nordmann'', age = 25, income = 70000,
           education = ''Bachelor's'', credit_score = 800\<rparr>"

definition lisa :: Customer where
  "lisa = \<lparr>name = ''Lisa Andersen'', age = 55, income = 80000,
            education = ''Master's'', credit_score = 650\<rparr>"

definition anders :: Customer where
  "anders = \<lparr>name = ''Anders Andersen'', age = 30, income = 50000,
              education = ''Bachelor's'', credit_score = 750\<rparr>"

subsection \<open>The decoration chain as the specification words it\<close>

text \<open>
  The specification speaks of an operation \<^verbatim>\<open>decorate(baseDescription, decoration)\<close>
  on descriptions, where the code wraps account objects. \<open>suffix\<close> and \<open>decorate\<close>
  follow the specification's table; \<open>decorator_class\<close> names the class of the code that
  stands for each decoration, so that the two can be compared.
\<close>

datatype Decoration = Bronze | Silver | Gold | Discount

fun suffix :: "Decoration \<Rightarrow> string" where
  "suffix Bronze = '' with Bronze features''"
| "suffix Silver = '' with Silver features''"
| "suffix Gold = '' with Gold features''"
| "suffix Discount = '' with discount''"

definition decorate :: "string \<Rightarrow> Decoration \<Rightarrow> string" where
  "decorate baseDescription decoration = baseDescription @ suffix decoration"

fun decorator_class :: "Decoration \<Rightarrow> Account \<Rightarrow> Account" where
  "decorator_class Bronze = BronzeAccountDecorator"
| "decorator_class Silver = SilverAccountDecorator"
| "decorator_class Gold = GoldAccountDecorator"
| "decorator_class Discount = DiscountedAccount"

section \<open>Properties\<close>

subsection \<open>Helper facts\<close>

lemma create_account_known_kinds:
  "create_account new_BankingServices ''Current'' c = ''Current Account Created''"
  "create_account new_BankingServices ''HomeLoan'' c =
     (if age c > 50 then ''Sorry, customers over 50 do not qualify for home loans.''
      else ''Home Loan Account Created'')"
  "create_account new_BankingServices ''CarLoan'' c =
     (if income c < 50000
      then ''Sorry, you need a minimum income of 50,000 for car and personal loans.''
      else ''Car Loan Account Created'')"
  "create_account new_BankingServices ''PersonalLoan'' c =
     (if income c < 50000
      then ''Sorry, you need a minimum income of 50,000 for car and personal loans.''
      else ''Personal Loan Account Created'')"
  "create_account new_BankingServices ''Savings'' c =
     (if age c < 18
      then ''Sorry, you need to be at least 18 years old to open a savings account.''
      else ''Savings Account Created'')"
  by (simp_all add: create_account_def new_BankingServices_def)

lemma create_account_unknown_kind:
  "kind \<notin> {''Current'', ''HomeLoan'', ''CarLoan'', ''PersonalLoan'', ''Savings''} \<Longrightarrow>
   create_account new_BankingServices kind c = ''Invalid account type''"
  by (simp add: create_account_def new_BankingServices_def)

lemma account_type_decorator_class:
  "account_type (decorator_class d a) = decorate (account_type a) d"
  by (cases d) (simp_all add: decorate_def)

lemma account_type_decorator_chain:
  "account_type (foldl (\<lambda>acc d. decorator_class d acc) a ds) = foldl decorate (account_type a) ds"
  by (induction ds arbitrary: a) (simp_all add: account_type_decorator_class)

lemma decorate_chain_concat:
  "foldl decorate s ds = s @ concat (map suffix ds)"
  by (induction ds arbitrary: s) (simp_all add: decorate_def)

subsection \<open>The loan gate\<close>

text \<open>
  Claim C1. \<^verbatim>\<open>apply_for_loan\<close> returns the low-credit message for every kind and every
  customer whose credit score is not strictly greater than 700, whatever services object
  the application holds. A score of exactly 700 is rejected; a score of 701 passes to
  \<^verbatim>\<open>create_account\<close>, whose result with the notebook's services is never the
  low-credit message. The credit check comes before every eligibility rule: a customer of
  age 55 with score 650 who applies for a home loan gets the low-credit message and not the
  over-50 rejection.
\<close>

theorem apply_for_loan_credit_check_first:
  "(\<not> credit_score customer > 700 \<longrightarrow>
      apply_for_loan la kind customer = ''Sorry, your credit score is too low for a loan.'')
   \<and> (credit_score customer = 700 \<longrightarrow>
      apply_for_loan la kind customer = ''Sorry, your credit score is too low for a loan.'')
   \<and> (credit_score customer = 701 \<longrightarrow>
      apply_for_loan la kind customer = create_account (banking_services la) kind customer
      \<and> apply_for_loan (new_LoanApplication new_BankingServices) kind customer
          \<noteq> ''Sorry, your credit score is too low for a loan.'')
   \<and> (age customer = 55 \<and> credit_score customer = 650 \<longrightarrow>
      apply_for_loan la ''HomeLoan'' customer = ''Sorry, your credit score is too low for a loan.''
      \<and> apply_for_loan la ''HomeLoan'' customer
          \<noteq> ''Sorry, customers over 50 do not qualify for home loans.'')"
proof -
  have never_low: "create_account new_BankingServices kind customer
      \<noteq> ''Sorry, your credit score is too low for a loan.''"
    by (simp add: create_account_def new_BankingServices_def)
  show ?thesis
    using never_low
    by (simp add: apply_for_loan_def check_credit_def new_LoanApplication_def)
qed

theorem apply_for_loan_credit_check_first_witness:
  "\<not> credit_score lisa > 700
   \<and> age lisa = 55 \<and> credit_score lisa = 650
   \<and> apply_for_loan (new_LoanApplication new_BankingServices) ''HomeLoan'' lisa
       = ''Sorry, your credit score is too low for a loan.''
   \<and> credit_score (ola\<lparr>credit_score := 700\<rparr>) = 700
   \<and> apply_for_loan (new_LoanApplication new_BankingServices) ''CarLoan'' (ola\<lparr>credit_score := 700\<rparr>)
       = ''Sorry, your credit score is too low for a loan.''
   \<and> credit_score (ola\<lparr>credit_score := 701\<rparr>) = 701
   \<and> apply_for_loan (new_LoanApplication new_BankingServices) ''CarLoan'' (ola\<lparr>credit_score := 701\<rparr>)
       = ''Car Loan Account Created''"
  using apply_for_loan_credit_check_first
          [where la = "new_LoanApplication new_BankingServices" and kind = "''HomeLoan''"
             and customer = lisa]
        apply_for_loan_credit_check_first
          [where la = "new_LoanApplication new_BankingServices" and kind = "''CarLoan''"
             and customer = "ola\<lparr>credit_score := 700\<rparr>"]
        apply_for_loan_credit_check_first
          [where la = "new_LoanApplication new_BankingServices" and kind = "''CarLoan''"
             and customer = "ola\<lparr>credit_score := 701\<rparr>"]
  by (simp add: lisa_def ola_def new_LoanApplication_def create_account_known_kinds)

text \<open>
  Claim C2. For every kind and every customer whose credit score is strictly greater than
  700, \<^verbatim>\<open>apply_for_loan\<close> returns what \<^verbatim>\<open>create_account\<close> of the application's
  services object returns for the same kind and customer, be it a description or a rejection.
\<close>

theorem apply_for_loan_delegates:
  "credit_score customer > 700 \<Longrightarrow>
   apply_for_loan la kind customer = create_account (banking_services la) kind customer"
  by (simp add: apply_for_loan_def check_credit_def)

theorem apply_for_loan_delegates_witness:
  "credit_score ola > 700
   \<and> apply_for_loan (new_LoanApplication new_BankingServices) ''CarLoan'' ola
       = ''Car Loan Account Created''
   \<and> credit_score (lisa\<lparr>credit_score := 720\<rparr>) > 700
   \<and> apply_for_loan (new_LoanApplication new_BankingServices) ''HomeLoan''
         (lisa\<lparr>credit_score := 720\<rparr>)
       = ''Sorry, customers over 50 do not qualify for home loans.''"
proof -
  have h1: "credit_score ola > 700"
    by (simp add: ola_def)
  have h2: "credit_score (lisa\<lparr>credit_score := 720\<rparr>) > 700"
    by simp
  show ?thesis
    using h1 h2
      apply_for_loan_delegates [OF h1, of "new_LoanApplication new_BankingServices" "''CarLoan''"]
      apply_for_loan_delegates [OF h2, of "new_LoanApplication new_BankingServices" "''HomeLoan''"]
    by (simp add: ola_def lisa_def new_LoanApplication_def create_account_known_kinds)
qed

subsection \<open>The eligibility rules\<close>

text \<open>
  Claim C3. With the notebook's services, \<^verbatim>\<open>create_account("HomeLoan", customer)\<close> is
  rejected exactly when the customer's age is strictly greater than 50: the result is the
  over-50 message then and the description \<^verbatim>\<open>Home Loan Account Created\<close> otherwise.
  Age 51 is rejected, age 50 is accepted, and the name, income, education and credit
  score of the customer do not matter.
\<close>

theorem create_account_HomeLoan_age:
  "create_account new_BankingServices ''HomeLoan'' customer =
     (if age customer > 50 then ''Sorry, customers over 50 do not qualify for home loans.''
      else ''Home Loan Account Created'')
   \<and> (rejected (create_account new_BankingServices ''HomeLoan'' customer) \<longleftrightarrow> age customer > 50)
   \<and> (age customer = 51 \<longrightarrow> rejected (create_account new_BankingServices ''HomeLoan'' customer))
   \<and> (age customer = 50 \<longrightarrow>
        create_account new_BankingServices ''HomeLoan'' customer = ''Home Loan Account Created'')
   \<and> create_account new_BankingServices ''HomeLoan''
        (customer\<lparr>name := n, income := i, education := e, credit_score := s\<rparr>)
      = create_account new_BankingServices ''HomeLoan'' customer"
  by (simp add: create_account_known_kinds rejected_def rejection_messages_def)

theorem create_account_HomeLoan_age_witness:
  "age (anders\<lparr>age := 51\<rparr>) = 51
   \<and> rejected (create_account new_BankingServices ''HomeLoan'' (anders\<lparr>age := 51\<rparr>))
   \<and> age (anders\<lparr>age := 50\<rparr>) = 50
   \<and> create_account new_BankingServices ''HomeLoan'' (anders\<lparr>age := 50\<rparr>)
       = ''Home Loan Account Created''
   \<and> \<not> rejected (create_account new_BankingServices ''HomeLoan'' (anders\<lparr>age := 50\<rparr>))"
  using create_account_HomeLoan_age
          [where customer = "anders\<lparr>age := 51\<rparr>" and n = "name lisa" and i = 0
             and e = "education lisa" and s = 0]
        create_account_HomeLoan_age
          [where customer = "anders\<lparr>age := 50\<rparr>" and n = "name lisa" and i = 0
             and e = "education lisa" and s = 0]
  by (simp add: rejected_def rejection_messages_def)

text \<open>
  Claim C4. With the notebook's services and a kind that is \<^verbatim>\<open>CarLoan\<close> or
  \<^verbatim>\<open>PersonalLoan\<close>, \<^verbatim>\<open>create_account\<close> is rejected exactly when the customer's
  income is strictly less than 50000: income 49999 is rejected, income 50000 is accepted
  with the description of the kind's account. The income rule touches no other kind: for
  any other kind the result is never the income message and does not change with the income.
\<close>

theorem create_account_loans_income:
  "create_account new_BankingServices ''CarLoan'' customer =
     (if income customer < 50000
      then ''Sorry, you need a minimum income of 50,000 for car and personal loans.''
      else ''Car Loan Account Created'')
   \<and> create_account new_BankingServices ''PersonalLoan'' customer =
     (if income customer < 50000
      then ''Sorry, you need a minimum income of 50,000 for car and personal loans.''
      else ''Personal Loan Account Created'')
   \<and> (kind \<in> {''CarLoan'', ''PersonalLoan''} \<longrightarrow>
        (rejected (create_account new_BankingServices kind customer) \<longleftrightarrow> income customer < 50000))
   \<and> (kind \<in> {''CarLoan'', ''PersonalLoan''} \<and> income customer = 49999 \<longrightarrow>
        rejected (create_account new_BankingServices kind customer))
   \<and> (kind \<in> {''CarLoan'', ''PersonalLoan''} \<and> income customer = 50000 \<longrightarrow>
        \<not> rejected (create_account new_BankingServices kind customer)
        \<and> create_account new_BankingServices kind customer
            = (if kind = ''CarLoan'' then ''Car Loan Account Created''
               else ''Personal Loan Account Created''))
   \<and> (kind \<notin> {''CarLoan'', ''PersonalLoan''} \<longrightarrow>
        create_account new_BankingServices kind customer
          \<noteq> ''Sorry, you need a minimum income of 50,000 for car and personal loans.''
        \<and> create_account bs kind (customer\<lparr>income := i\<rparr>) = create_account bs kind customer)"
proof -
  have other: "kind \<notin> {''CarLoan'', ''PersonalLoan''} \<Longrightarrow>
      create_account new_BankingServices kind customer
        \<noteq> ''Sorry, you need a minimum income of 50,000 for car and personal loans.''"
    by (simp add: create_account_def new_BankingServices_def)
  have indep: "kind \<notin> {''CarLoan'', ''PersonalLoan''} \<Longrightarrow>
      create_account bs kind (customer\<lparr>income := i\<rparr>) = create_account bs kind customer"
    by (simp add: create_account_def)
  show ?thesis
    using other indep
    by (auto simp add: create_account_known_kinds rejected_def rejection_messages_def)
qed

theorem create_account_loans_income_witness:
  "''CarLoan'' \<in> {''CarLoan'', ''PersonalLoan''} \<and> income (ola\<lparr>income := 49999\<rparr>) = 49999
   \<and> rejected (create_account new_BankingServices ''CarLoan'' (ola\<lparr>income := 49999\<rparr>))
   \<and> ''PersonalLoan'' \<in> {''CarLoan'', ''PersonalLoan''} \<and> income anders = 50000
   \<and> create_account new_BankingServices ''PersonalLoan'' anders = ''Personal Loan Account Created''
   \<and> \<not> rejected (create_account new_BankingServices ''PersonalLoan'' anders)
   \<and> ''Savings'' \<notin> {''CarLoan'', ''PersonalLoan''}
   \<and> create_account new_BankingServices ''Savings'' (anders\<lparr>income := 0\<rparr>)
       = create_account new_BankingServices ''Savings'' anders"
  using create_account_loans_income
          [where kind = "''CarLoan''" and customer = "ola\<lparr>income := 49999\<rparr>"
             and bs = new_BankingServices and i = 0]
        create_account_loans_income
          [where kind = "''PersonalLoan''" and customer = anders and bs = new_BankingServices
             and i = 0]
        create_account_loans_income
          [where kind = "''Savings''" and customer = anders and bs = new_BankingServices
             and i = 0]
  by (simp add: anders_def rejected_def rejection_messages_def)

text \<open>
  Claim C5. With the notebook's services, \<^verbatim>\<open>create_account("Savings", customer)\<close> is
  rejected exactly when the customer's age is strictly less than 18: age 17 is rejected,
  age 18 is accepted with the description \<^verbatim>\<open>Savings Account Created\<close>.
\<close>

theorem create_account_Savings_age:
  "create_account new_BankingServices ''Savings'' customer =
     (if age customer < 18
      then ''Sorry, you need to be at least 18 years old to open a savings account.''
      else ''Savings Account Created'')
   \<and> (rejected (create_account new_BankingServices ''Savings'' customer) \<longleftrightarrow> age customer < 18)
   \<and> (age customer = 17 \<longrightarrow> rejected (create_account new_BankingServices ''Savings'' customer))
   \<and> (age customer = 18 \<longrightarrow>
        create_account new_BankingServices ''Savings'' customer = ''Savings Account Created'')"
  by (simp add: create_account_known_kinds rejected_def rejection_messages_def)

theorem create_account_Savings_age_witness:
  "age (anders\<lparr>age := 17\<rparr>) = 17
   \<and> rejected (create_account new_BankingServices ''Savings'' (anders\<lparr>age := 17\<rparr>))
   \<and> age (anders\<lparr>age := 18\<rparr>) = 18
   \<and> create_account new_BankingServices ''Savings'' (anders\<lparr>age := 18\<rparr>)
       = ''Savings Account Created''
   \<and> \<not> rejected (create_account new_BankingServices ''Savings'' (anders\<lparr>age := 18\<rparr>))"
  using create_account_Savings_age [where customer = "anders\<lparr>age := 17\<rparr>"]
        create_account_Savings_age [where customer = "anders\<lparr>age := 18\<rparr>"]
  by (simp add: rejected_def rejection_messages_def)

text \<open>
  Claim C6. With the notebook's services, for every kind string other than
  \<^verbatim>\<open>Current\<close>, \<^verbatim>\<open>HomeLoan\<close>, \<^verbatim>\<open>CarLoan\<close>, \<^verbatim>\<open>PersonalLoan\<close> and
  \<^verbatim>\<open>Savings\<close>, \<^verbatim>\<open>create_account\<close> returns \<^verbatim>\<open>Invalid account type\<close> for every
  customer.
\<close>

theorem create_account_invalid_type:
  "kind \<notin> {''Current'', ''HomeLoan'', ''CarLoan'', ''PersonalLoan'', ''Savings''} \<Longrightarrow>
   create_account new_BankingServices kind customer = ''Invalid account type''"
  by (simp add: create_account_def new_BankingServices_def)

theorem create_account_invalid_type_witness:
  "''Bogus'' \<notin> {''Current'', ''HomeLoan'', ''CarLoan'', ''PersonalLoan'', ''Savings''}
   \<and> create_account new_BankingServices ''Bogus'' lisa = ''Invalid account type''
   \<and> create_account new_BankingServices ''Bogus'' ola = ''Invalid account type''"
proof -
  have h: "''Bogus'' \<notin> {''Current'', ''HomeLoan'', ''CarLoan'', ''PersonalLoan'', ''Savings''}"
    by simp
  show ?thesis
    using h create_account_invalid_type [OF h, of lisa] create_account_invalid_type [OF h, of ola]
    by simp
qed

text \<open>
  Claim C7, as the code has it. The claim names the rejection texts
  \<^verbatim>\<open>customers over 50 do not qualify for home loans.\<close>,
  \<^verbatim>\<open>minimum income of 50,000 required.\<close> and
  \<^verbatim>\<open>must be at least 18 years old to open a savings account.\<close>; the code returns
  longer sentences that start with \<^verbatim>\<open>Sorry,\<close>. Whenever an eligibility rule of
  \<^verbatim>\<open>create_account\<close> fires, for any services object, the result is exactly the
  literal of that branch.
\<close>

theorem create_account_rejection_text:
  "(kind = ''HomeLoan'' \<and> age customer > 50 \<longrightarrow>
      create_account bs kind customer
        = ''Sorry, customers over 50 do not qualify for home loans.'')
   \<and> (kind \<in> {''CarLoan'', ''PersonalLoan''} \<and> income customer < 50000 \<longrightarrow>
      create_account bs kind customer
        = ''Sorry, you need a minimum income of 50,000 for car and personal loans.'')
   \<and> (kind = ''Savings'' \<and> age customer < 18 \<longrightarrow>
      create_account bs kind customer
        = ''Sorry, you need to be at least 18 years old to open a savings account.'')"
  by (auto simp add: create_account_def)

theorem create_account_rejection_text_witness:
  "age lisa > 50
   \<and> create_account new_BankingServices ''HomeLoan'' lisa
       = ''Sorry, customers over 50 do not qualify for home loans.''
   \<and> ''CarLoan'' \<in> {''CarLoan'', ''PersonalLoan''} \<and> income (ola\<lparr>income := 49999\<rparr>) < 50000
   \<and> create_account new_BankingServices ''CarLoan'' (ola\<lparr>income := 49999\<rparr>)
       = ''Sorry, you need a minimum income of 50,000 for car and personal loans.''
   \<and> ''PersonalLoan'' \<in> {''CarLoan'', ''PersonalLoan''}
   \<and> create_account new_BankingServices ''PersonalLoan'' (ola\<lparr>income := 49999\<rparr>)
       = ''Sorry, you need a minimum income of 50,000 for car and personal loans.''
   \<and> age (anders\<lparr>age := 17\<rparr>) < 18
   \<and> create_account new_BankingServices ''Savings'' (anders\<lparr>age := 17\<rparr>)
       = ''Sorry, you need to be at least 18 years old to open a savings account.''"
  using create_account_rejection_text
          [where kind = "''HomeLoan''" and customer = lisa and bs = new_BankingServices]
        create_account_rejection_text
          [where kind = "''CarLoan''" and customer = "ola\<lparr>income := 49999\<rparr>"
             and bs = new_BankingServices]
        create_account_rejection_text
          [where kind = "''PersonalLoan''" and customer = "ola\<lparr>income := 49999\<rparr>"
             and bs = new_BankingServices]
        create_account_rejection_text
          [where kind = "''Savings''" and customer = "anders\<lparr>age := 17\<rparr>"
             and bs = new_BankingServices]
  by (simp add: lisa_def)

text \<open>
  The rejection texts that claim C7 names are not what the code returns: each eligibility
  rule fires at the input below, and the result differs from the text of the claim.
\<close>

theorem create_account_rejection_text_counterexample:
  "age lisa > 50
   \<and> create_account new_BankingServices ''HomeLoan'' lisa
       \<noteq> ''customers over 50 do not qualify for home loans.''
   \<and> income (ola\<lparr>income := 49999\<rparr>) < 50000
   \<and> create_account new_BankingServices ''CarLoan'' (ola\<lparr>income := 49999\<rparr>)
       \<noteq> ''minimum income of 50,000 required.''
   \<and> age (anders\<lparr>age := 17\<rparr>) < 18
   \<and> create_account new_BankingServices ''Savings'' (anders\<lparr>age := 17\<rparr>)
       \<noteq> ''must be at least 18 years old to open a savings account.''"
  by (simp add: create_account_known_kinds lisa_def)

subsection \<open>Decorators, upgrades and discounts\<close>

text \<open>
  Claim C8. Each decorator class appends its fixed suffix to the description of the account
  it wraps, which is what \<^verbatim>\<open>decorate\<close> of the specification does to that description.
  Wrapping in Bronze and then in Discount gives the description, then
  \<^verbatim>\<open> with Bronze features\<close>, then \<^verbatim>\<open> with discount\<close>; and for any sequence of
  decorations the result is the base description followed by the suffixes in the order of
  application.
\<close>

theorem decorators_append_in_order:
  "account_type (BronzeAccountDecorator a) = account_type a @ '' with Bronze features''
   \<and> account_type (SilverAccountDecorator a) = account_type a @ '' with Silver features''
   \<and> account_type (GoldAccountDecorator a) = account_type a @ '' with Gold features''
   \<and> account_type (DiscountedAccount a) = account_type a @ '' with discount''
   \<and> account_type (decorator_class d a) = decorate (account_type a) d
   \<and> account_type (DiscountedAccount (BronzeAccountDecorator a))
       = account_type a @ '' with Bronze features'' @ '' with discount''
   \<and> decorate (decorate s Bronze) Discount = s @ '' with Bronze features'' @ '' with discount''
   \<and> account_type (foldl (\<lambda>acc d. decorator_class d acc) a ds)
       = account_type a @ concat (map suffix ds)"
  by (simp add: account_type_decorator_class account_type_decorator_chain
        decorate_chain_concat decorate_def)

text \<open>
  Claim C9. \<^verbatim>\<open>upgrade_account\<close> with level \<^verbatim>\<open>Bronze\<close>, \<^verbatim>\<open>Silver\<close> or
  \<^verbatim>\<open>Gold\<close> returns the description of the account with the suffix of that tier, and
  with any other level it returns \<^verbatim>\<open>Invalid level\<close>. \<^verbatim>\<open>apply_discount\<close> returns the
  description with \<^verbatim>\<open> with discount\<close> appended, for every account.
\<close>

theorem upgrade_account_and_apply_discount:
  "upgrade_account bs a ''Bronze'' = account_type a @ '' with Bronze features''
   \<and> upgrade_account bs a ''Silver'' = account_type a @ '' with Silver features''
   \<and> upgrade_account bs a ''Gold'' = account_type a @ '' with Gold features''
   \<and> (level \<notin> {''Bronze'', ''Silver'', ''Gold''} \<longrightarrow>
        upgrade_account bs a level = ''Invalid level'')
   \<and> apply_discount bs a = account_type a @ '' with discount''"
  by (simp add: upgrade_account_def apply_discount_def)

theorem upgrade_account_and_apply_discount_witness:
  "upgrade_account new_BankingServices SavingsAccount ''Gold''
     = ''Savings Account Created with Gold features''
   \<and> ''Platinum'' \<notin> {''Bronze'', ''Silver'', ''Gold''}
   \<and> upgrade_account new_BankingServices SavingsAccount ''Platinum'' = ''Invalid level''
   \<and> apply_discount new_BankingServices SavingsAccount = ''Savings Account Created with discount''"
  using upgrade_account_and_apply_discount
          [where bs = new_BankingServices and a = SavingsAccount and level = "''Platinum''"]
  by simp

subsection \<open>What the results depend on\<close>

text \<open>
  Claim C10. For every services object and kind, two customers with the same age and income
  get the same result from \<^verbatim>\<open>create_account\<close>; \<^verbatim>\<open>check_credit\<close> is the same for
  two customers with the same credit score; and \<^verbatim>\<open>apply_for_loan\<close> gives the same
  result to two customers with the same age, income and credit score. Name and education
  are never read.
\<close>

theorem results_depend_only_on_age_income_credit:
  "(age c1 = age c2 \<and> income c1 = income c2 \<longrightarrow>
      create_account bs kind c1 = create_account bs kind c2)
   \<and> (credit_score c1 = credit_score c2 \<longrightarrow> check_credit c1 = check_credit c2)
   \<and> (age c1 = age c2 \<and> income c1 = income c2 \<and> credit_score c1 = credit_score c2 \<longrightarrow>
      apply_for_loan la kind c1 = apply_for_loan la kind c2)"
  by (simp add: create_account_def check_credit_def apply_for_loan_def)

theorem results_depend_only_on_age_income_credit_witness:
  "name anders \<noteq> name (lisa\<lparr>age := 30, income := 50000, credit_score := 750\<rparr>)
   \<and> education anders \<noteq> education (lisa\<lparr>age := 30, income := 50000, credit_score := 750\<rparr>)
   \<and> age anders = age (lisa\<lparr>age := 30, income := 50000, credit_score := 750\<rparr>)
   \<and> income anders = income (lisa\<lparr>age := 30, income := 50000, credit_score := 750\<rparr>)
   \<and> credit_score anders = credit_score (lisa\<lparr>age := 30, income := 50000, credit_score := 750\<rparr>)
   \<and> create_account new_BankingServices ''Savings'' anders
       = create_account new_BankingServices ''Savings''
           (lisa\<lparr>age := 30, income := 50000, credit_score := 750\<rparr>)
   \<and> check_credit anders = check_credit (lisa\<lparr>age := 30, income := 50000, credit_score := 750\<rparr>)
   \<and> apply_for_loan (new_LoanApplication new_BankingServices) ''HomeLoan'' anders
       = apply_for_loan (new_LoanApplication new_BankingServices) ''HomeLoan''
           (lisa\<lparr>age := 30, income := 50000, credit_score := 750\<rparr>)"
  using results_depend_only_on_age_income_credit
          [where ?c1.0 = anders and ?c2.0 = "lisa\<lparr>age := 30, income := 50000, credit_score := 750\<rparr>"
             and bs = new_BankingServices and kind = "''Savings''"
             and la = "new_LoanApplication new_BankingServices"]
        results_depend_only_on_age_income_credit
          [where ?c1.0 = anders and ?c2.0 = "lisa\<lparr>age := 30, income := 50000, credit_score := 750\<rparr>"
             and bs = new_BankingServices and kind = "''HomeLoan''"
             and la = "new_LoanApplication new_BankingServices"]
  by (simp add: anders_def lisa_def)

end
